theory Spec2Isabelle
  imports Main
begin

section \<open>Statuses and status-bearing errors\<close>

text \<open>
  \<^verbatim>\<open>CharmStatusType = Union[ActiveStatus, WaitingStatus, BlockedStatus, MaintenanceStatus]\<close>
  (\<^verbatim>\<open>status_handling/_charm_status_type.py\<close>). A status type is one of the four status
  classes of the host framework; calling the class with a message builds a status
  object, which carries the class and the message.
\<close>

datatype CharmStatusType = ActiveStatus | WaitingStatus | BlockedStatus | MaintenanceStatus

record status =
  status_class :: CharmStatusType
  message :: string

definition new_status :: "CharmStatusType \<Rightarrow> string \<Rightarrow> status" where
  "new_status T m = \<lparr>status_class = T, message = m\<rparr>"

subsection \<open>Python values and \<^verbatim>\<open>str\<close>\<close>

text \<open>
  The constructor of \<^verbatim>\<open>ErrorWithStatus\<close> passes its message through \<^verbatim>\<open>str\<close>, so the
  message may be any Python value. The values modelled are strings, integers, booleans
  and \<^verbatim>\<open>None\<close>; \<^verbatim>\<open>str\<close> is the identity on strings and prints the others as Python
  does.
\<close>

datatype pyval = PyStr string | PyInt int | PyBool bool | PyNone

definition digit_char :: "nat \<Rightarrow> char" where
  "digit_char d = ''0123456789'' ! d"

fun str_nat :: "nat \<Rightarrow> string" where
  "str_nat n = (if n < 10 then [digit_char n] else str_nat (n div 10) @ [digit_char (n mod 10)])"

declare str_nat.simps [simp del]

definition str_int :: "int \<Rightarrow> string" where
  "str_int i = (if i < 0 then CHR ''-'' # str_nat (nat (- i)) else str_nat (nat i))"

fun str :: "pyval \<Rightarrow> string" where
  "str (PyStr s) = s"
| "str (PyInt i) = str_int i"
| "str (PyBool b) = (if b then ''True'' else ''False'')"
| "str PyNone = ''None''"

subsection \<open>\<^verbatim>\<open>ErrorWithStatus\<close> and \<^verbatim>\<open>LeadershipError\<close>\<close>

text \<open>
  \<^verbatim>\<open>exceptions/_status_exceptions.py\<close>. An \<^verbatim>\<open>ErrorWithStatus\<close> object holds the message
  given to \<^verbatim>\<open>Exception.__init__\<close>, the attribute \<^verbatim>\<open>msg\<close> and the attribute
  \<^verbatim>\<open>status_type\<close>; the property \<^verbatim>\<open>status\<close> calls the status type on \<^verbatim>\<open>msg\<close>.
\<close>

record ErrorWithStatus =
  exception_message :: string
  msg :: string
  status_type :: CharmStatusType

definition ErrorWithStatus_init :: "pyval \<Rightarrow> CharmStatusType \<Rightarrow> ErrorWithStatus" where
  "ErrorWithStatus_init m T = \<lparr>exception_message = str m, msg = str m, status_type = T\<rparr>"

definition status_of :: "ErrorWithStatus \<Rightarrow> status" where
  "status_of e = new_status (status_type e) (msg e)"

text \<open>
  \<^verbatim>\<open>LeadershipError.__init__(self, msg="Waiting for leadership", status_type=WaitingStatus)\<close>:
  both parameters have defaults; an omitted argument is \<open>None\<close> here.
\<close>

definition LeadershipError_init :: "pyval option \<Rightarrow> CharmStatusType option \<Rightarrow> ErrorWithStatus" where
  "LeadershipError_init m T =
     ErrorWithStatus_init (case m of None \<Rightarrow> PyStr ''Waiting for leadership'' | Some v \<Rightarrow> v)
       (case T of None \<Rightarrow> WaitingStatus | Some t \<Rightarrow> t)"

text \<open>
  The status of the cluster API's error (\<^verbatim>\<open>e.status.code\<close> of lightkube's \<^verbatim>\<open>ApiError\<close>),
  and the exceptions that travel through the code. \<^verbatim>\<open>LeadershipError\<close> and
  \<^verbatim>\<open>ReconcileError\<close> are subclasses of \<^verbatim>\<open>ErrorWithStatus\<close> and carry its fields.
  Modelled from the spec: the class \<^verbatim>\<open>ReconcileError\<close> (\<^verbatim>\<open>lightkube/exceptions\<close>) is not
  among the sources; it is the status-bearing failure of the apply step, built from a
  message and a status type as \<^verbatim>\<open>reconcile_resources\<close> builds it.
\<close>

record ApiStatus =
  code :: int
  api_message :: string

datatype exn =
    LeadershipError ErrorWithStatus
  | ReconcileError ErrorWithStatus
  | ApiError ApiStatus
  | AttributeError string
  | OtherException string

section \<open>The leadership check\<close>

text \<open>
  \<^verbatim>\<open>utilities/_check_leadership.py\<close>. The charm is read through the attributes the code
  uses: \<^verbatim>\<open>charm.unit.is_leader()\<close>, \<^verbatim>\<open>charm.template_files\<close> and
  \<^verbatim>\<open>charm.context_for_render\<close>. The parameter \<^verbatim>\<open>raise_if_not_leader\<close> defaults to
  \<^verbatim>\<open>True\<close>; an omitted argument is \<open>None\<close>.
\<close>

type_synonym render_context = "(string \<times> string) list"

record charm =
  unit_is_leader :: bool
  template_files :: "string list"
  context_for_render :: render_context

definition is_leader :: "charm \<Rightarrow> bool option \<Rightarrow> exn + bool" where
  "is_leader c raise_if_not_leader =
     (if \<not> unit_is_leader c then
        (if (case raise_if_not_leader of None \<Rightarrow> True | Some b \<Rightarrow> b)
         then Inl (LeadershipError (LeadershipError_init None None))
         else Inr False)
      else Inr True)"

section \<open>Resources, the cluster and the collaborators\<close>

text \<open>
  \<^verbatim>\<open>lightkube/types.py\<close>: a resource is a namespaced or a global lightkube resource. It
  is read here as its identifier (kind, namespace when it has one, name) and the body it
  declares. The cluster maps identifiers to the live objects.
\<close>

record resource =
  res_kind :: string
  res_namespace :: "string option"
  res_name :: string
  res_body :: string

type_synonym resource_id = "string \<times> string option \<times> string"

definition rid :: "resource \<Rightarrow> resource_id" where
  "rid r = (res_kind r, res_namespace r, res_name r)"

type_synonym cluster = "resource_id \<Rightarrow> string option"

text \<open>
  The lightkube client is an external collaborator. \<open>apply_many\<close> is its bulk apply: it
  returns the exception it raised, if any, and the cluster it leaves behind. \<open>get\<close> is
  its read of one object: the live object, or nothing when there is none, or the
  exception of a failed lookup.
\<close>

record client =
  field_manager :: string
  apply_many :: "resource list \<Rightarrow> cluster \<Rightarrow> exn option \<times> cluster"
  get :: "resource \<Rightarrow> cluster \<Rightarrow> exn + string option"

text \<open>
  The libraries \<^verbatim>\<open>render_manifests\<close> and the property \<^verbatim>\<open>lightkube_client\<close> call:
  \<^verbatim>\<open>Path(f).read_text()\<close>, \<^verbatim>\<open>Template(text).render(**context)\<close>,
  \<^verbatim>\<open>codecs.load_all_yaml\<close>, the formatting of the context in a log line and the
  constructor \<^verbatim>\<open>Client(field_manager=...)\<close>.
\<close>

record env =
  read_text :: "string \<Rightarrow> exn + string"
  render_template :: "string \<Rightarrow> render_context \<Rightarrow> exn + string"
  load_all_yaml :: "string \<Rightarrow> exn + resource list"
  format_context :: "render_context \<Rightarrow> string"
  new_Client :: "string \<Rightarrow> client"

text \<open>
  The calls a handler can make on its collaborators, recorded in order of invocation;
  \<open>Delete\<close> is the client's delete operation.
\<close>

datatype call =
    Render_manifests
  | Check_resources "resource list"
  | Apply_many "resource list"
  | Delete resource

datatype level = DEBUG | INFO | ERROR

section \<open>\<^verbatim>\<open>KubernetesResourceHandler\<close>\<close>

text \<open>
  \<^verbatim>\<open>lightkube/utilities/_manifest_charm_extension.py\<close>. The state a method acts on: the
  handler's attributes (\<^verbatim>\<open>_charm\<close>, \<^verbatim>\<open>_lightkube_client\<close>, and \<^verbatim>\<open>app_name\<close>, which
  \<^verbatim>\<open>__init__\<close> does not set: \<open>None\<close> when the instance has no such attribute), the
  lines written to \<^verbatim>\<open>self.log\<close>, the cluster, and the calls made so far.
\<close>

record handler =
  handler_charm :: charm
  private_lightkube_client :: "client option"
  app_name :: "string option"
  log :: "(level \<times> string) list"
  cluster :: cluster
  calls :: "call list"

definition log_at :: "level \<Rightarrow> string \<Rightarrow> handler \<Rightarrow> handler" where
  "log_at l m h = h\<lparr>log := log h @ [(l, m)]\<rparr>"

definition called :: "call \<Rightarrow> handler \<Rightarrow> handler" where
  "called c h = h\<lparr>calls := calls h @ [c]\<rparr>"

text \<open>
  The property \<^verbatim>\<open>lightkube_client\<close>: the client is created on first use, from
  \<^verbatim>\<open>self.app_name\<close>, and kept.
\<close>

definition lightkube_client :: "env \<Rightarrow> handler \<Rightarrow> (exn + client) \<times> handler" where
  "lightkube_client ev h =
     (case private_lightkube_client h of
        Some c \<Rightarrow> (Inr c, h)
      | None \<Rightarrow>
          (case app_name h of
             None \<Rightarrow>
               (Inl (AttributeError ''KubernetesResourceHandler object has no attribute app_name''), h)
           | Some n \<Rightarrow> (Inr (new_Client ev n), h\<lparr>private_lightkube_client := Some (new_Client ev n)\<rparr>)))"

text \<open>\<^verbatim>\<open>sep.join(parts)\<close>.\<close>

fun join :: "string \<Rightarrow> string list \<Rightarrow> string" where
  "join sep [] = []"
| "join sep [p] = p"
| "join sep (p # q # ps) = p @ sep @ join sep (q # ps)"

text \<open>The loop of \<^verbatim>\<open>render_manifests\<close> over \<^verbatim>\<open>self.template_files\<close>.\<close>

fun render_parts ::
  "env \<Rightarrow> render_context \<Rightarrow> string list \<Rightarrow> string list \<Rightarrow> handler \<Rightarrow> (exn + string list) \<times> handler"
where
  "render_parts ev ctxt [] manifest_parts h = (Inr manifest_parts, h)"
| "render_parts ev ctxt (template_file # rest) manifest_parts h =
     (let h1 = log_at DEBUG (''Rendering manifest for '' @ template_file) h in
      case read_text ev template_file of
        Inl x \<Rightarrow> (Inl x, h1)
      | Inr text \<Rightarrow>
          (case render_template ev text ctxt of
             Inl x \<Rightarrow> (Inl x, h1)
           | Inr rendered_template \<Rightarrow>
               render_parts ev ctxt rest (manifest_parts @ [rendered_template])
                 (log_at DEBUG (''Rendered manifest:\<newline>'' @ rendered_template) h1)))"

definition render_manifests :: "env \<Rightarrow> handler \<Rightarrow> (exn + resource list) \<times> handler" where
  "render_manifests ev h =
     (let h1 = log_at INFO ''Rendering manifests'' (called Render_manifests h);
          ctxt = context_for_render (handler_charm h1);
          h2 = log_at DEBUG (''Rendering with context: '' @ format_context ev ctxt) h1
      in case render_parts ev ctxt (template_files (handler_charm h2)) [] h2 of
           (Inl x, h3) \<Rightarrow> (Inl x, h3)
         | (Inr manifest_parts, h3) \<Rightarrow>
             (load_all_yaml ev (join ''\<newline>---\<newline>'' manifest_parts), h3))"

text \<open>
  The first lines of both \<^verbatim>\<open>resource_status\<close> and \<^verbatim>\<open>reconcile_resources\<close>:
  \<^verbatim>\<open>if resources is None: resources = self.render_manifests()\<close>.
\<close>

definition resources_or_render ::
  "env \<Rightarrow> handler \<Rightarrow> resource list option \<Rightarrow> (exn + resource list) \<times> handler" where
  "resources_or_render ev h resources =
     (case resources of None \<Rightarrow> render_manifests ev h | Some rs \<Rightarrow> (Inr rs, h))"

text \<open>
  The lines \<^verbatim>\<open>Issue i+1/len(errors): error.msg\<close> that \<^verbatim>\<open>resource_status\<close> logs, one for
  each error.
\<close>

definition issue_lines :: "ErrorWithStatus list \<Rightarrow> (level \<times> string) list" where
  "issue_lines errors =
     map (\<lambda>(i, error).
            (INFO, ''Issue '' @ str_nat (i + 1) @ ''/'' @ str_nat (length errors) @ '': '' @ msg error))
       (enumerate 0 errors)"

text \<open>
  \<^verbatim>\<open>resource_status\<close>. The functions \<^verbatim>\<open>check_resources\<close> and \<^verbatim>\<open>get_first_worst_error\<close>
  come from \<^verbatim>\<open>_check_resources.py\<close>, which is not among the sources: they are the first
  two parameters. \<^verbatim>\<open>check_resources\<close> reads the cluster through the client and returns a
  flag and a list with one entry for each resource, \<^verbatim>\<open>None\<close> for a resource that is
  fine.
\<close>

type_synonym check_resources_fn =
  "client \<Rightarrow> resource list \<Rightarrow> cluster \<Rightarrow> exn + bool \<times> ErrorWithStatus option list"

definition resource_status ::
  "check_resources_fn \<Rightarrow> (ErrorWithStatus list \<Rightarrow> ErrorWithStatus) \<Rightarrow> env \<Rightarrow> handler
     \<Rightarrow> resource list option \<Rightarrow> (exn + status) \<times> handler"
where
  "resource_status check_resources get_first_worst_error ev h resources =
     (let h1 = log_at INFO ''Computing status'' h in
      case is_leader (handler_charm h1) None of
        Inl (LeadershipError e) \<Rightarrow> (Inr (status_of e), h1)
      | Inl x \<Rightarrow> (Inl x, h1)
      | Inr _ \<Rightarrow>
          (case resources_or_render ev h1 resources of
             (Inl x, h2) \<Rightarrow> (Inl x, h2)
           | (Inr rs, h2) \<Rightarrow>
               (case lightkube_client ev h2 of
                  (Inl x, h3) \<Rightarrow> (Inl x, h3)
                | (Inr c, h3) \<Rightarrow>
                    (let h4 = called (Check_resources rs) h3 in
                     case check_resources c rs (cluster h4) of
                       Inl x \<Rightarrow> (Inl x, h4)
                     | Inr (charm_ok, errors) \<Rightarrow>
                         if charm_ok then
                           (Inr (new_status ActiveStatus []), log_at INFO ''Status: active'' h4)
                         else
                           (let h5 = log_at INFO ''Charm is not active due to one or more issues:'' h4;
                                errors' = List.map_filter id errors;
                                h6 = h5\<lparr>log := log h5 @ issue_lines errors'\<rparr>
                            in (Inr (status_of (get_first_worst_error errors')), h6))))))"

text \<open>
  \<^verbatim>\<open>reconcile_resources\<close>. Only an \<^verbatim>\<open>ApiError\<close> is caught; \<^verbatim>\<open>str(e)\<close> of an
  \<^verbatim>\<open>ApiError\<close> is the message of its status.
\<close>

definition reconcile_resources ::
  "env \<Rightarrow> handler \<Rightarrow> resource list option \<Rightarrow> (exn + unit) \<times> handler"
where
  "reconcile_resources ev h resources =
     (let h1 = log_at INFO ''Reconciling'' h in
      case resources_or_render ev h1 resources of
        (Inl x, h2) \<Rightarrow> (Inl x, h2)
      | (Inr rs, h2) \<Rightarrow>
          (let h3 = log_at DEBUG (''Applying '' @ str_nat (length rs) @ '' resources'') h2 in
           case lightkube_client ev h3 of
             (Inl x, h4) \<Rightarrow> (Inl x, h4)
           | (Inr c, h4) \<Rightarrow>
               (case apply_many c rs (cluster h4) of
                  (None, cl) \<Rightarrow>
                    (Inr (),
                     log_at INFO ''Reconcile completed successfully''
                       ((called (Apply_many rs) h4)\<lparr>cluster := cl\<rparr>))
                | (Some (ApiError e), cl) \<Rightarrow>
                    (let h5 = (called (Apply_many rs) h4)\<lparr>cluster := cl\<rparr> in
                     if code e = 403 then
                       (Inl (ReconcileError
                               (ErrorWithStatus_init
                                  (PyStr ''Cannot create required resources.  Charm may be missing `--trust`'')
                                  BlockedStatus)),
                        log_at ERROR (''Error received: '' @ api_message e)
                          (log_at ERROR
                             (''Received Forbidden (403) error from lightkube when creating resources.  ''
                              @ ''This may be due to the charm lacking permissions to create cluster-scoped ''
                              @ ''roles and resources.  Charm must be deployed with `--trust`'')
                             h5))
                     else (Inl (ApiError e), h5))
                | (Some x, cl) \<Rightarrow> (Inl x, (called (Apply_many rs) h4)\<lparr>cluster := cl\<rparr>))))"

section \<open>The checks of \<^verbatim>\<open>_check_resources.py\<close>\<close>

text \<open>
  Modelled from the spec: the order of the verdicts, which the missing
  \<^verbatim>\<open>get_first_worst_error\<close> ranks by. The spec fixes it as
  Healthy < Waiting < Maintenance < Blocked, Healthy being \<^verbatim>\<open>ActiveStatus\<close>.
\<close>

fun severity :: "CharmStatusType \<Rightarrow> nat" where
  "severity ActiveStatus = 0"
| "severity WaitingStatus = 1"
| "severity MaintenanceStatus = 2"
| "severity BlockedStatus = 3"

text \<open>
  Modelled from the spec: \<^verbatim>\<open>get_first_worst_error\<close> of \<^verbatim>\<open>_check_resources.py\<close>, which is
  not among the sources. The spec's \<open>worstOf\<close> returns Healthy on empty input, otherwise
  the maximum verdict, the first occurrence among equals. It is a scan that keeps the
  worst error seen so far and replaces it only by a strictly worse one; the caller reads
  \<^verbatim>\<open>.status\<close> of the result, so Healthy on empty input is an error object whose status is
  \<^verbatim>\<open>ActiveStatus\<close> with no message.
\<close>

fun worst_from :: "ErrorWithStatus \<Rightarrow> ErrorWithStatus list \<Rightarrow> ErrorWithStatus" where
  "worst_from cached_error [] = cached_error"
| "worst_from cached_error (error # errors) =
     worst_from
       (if severity (status_type cached_error) < severity (status_type error)
        then error else cached_error)
       errors"

definition get_first_worst_error :: "ErrorWithStatus list \<Rightarrow> ErrorWithStatus" where
  "get_first_worst_error errors =
     (case errors of
        [] \<Rightarrow> ErrorWithStatus_init (PyStr []) ActiveStatus
      | error # rest \<Rightarrow> worst_from error rest)"

text \<open>
  Modelled from the spec: the check of one resource (the spec's ResourceChecker), missing
  with \<^verbatim>\<open>_check_resources.py\<close>. It looks the live object up; an absent object, or one
  that misses a property the readiness rule \<open>ready\<close> of its kind asks for, gives a Waiting
  error whose cause names the resource and what is missing; a failed lookup is passed on
  as it is. The readiness rule is a parameter: it returns the missing property, or
  \<open>None\<close> for a ready object.
\<close>

definition check ::
  "(resource \<Rightarrow> string \<Rightarrow> string option) \<Rightarrow> client \<Rightarrow> resource \<Rightarrow> cluster
     \<Rightarrow> exn + ErrorWithStatus option"
where
  "check ready c r cl =
     (case get c r cl of
        Inl x \<Rightarrow> Inl x
      | Inr None \<Rightarrow>
          Inr (Some (ErrorWithStatus_init (PyStr (res_name r @ '': not found'')) WaitingStatus))
      | Inr (Some live) \<Rightarrow>
          (case ready r live of
             None \<Rightarrow> Inr None
           | Some missing \<Rightarrow>
               Inr (Some (ErrorWithStatus_init (PyStr (res_name r @ '': '' @ missing)) WaitingStatus))))"

text \<open>
  Modelled from the spec: \<^verbatim>\<open>check_resources\<close> of \<^verbatim>\<open>_check_resources.py\<close> (the spec's
  HealthAggregator), not among the sources. It checks every resource in declaration
  order; a check that fails with a transport error is recorded as a Blocked error
  "could not determine status" for that resource. The flag is true when no resource
  gave an error.
\<close>

fun check_each ::
  "(resource \<Rightarrow> string \<Rightarrow> string option) \<Rightarrow> client \<Rightarrow> resource list \<Rightarrow> cluster
     \<Rightarrow> ErrorWithStatus option list"
where
  "check_each ready c [] cl = []"
| "check_each ready c (r # rs) cl =
     (case check ready c r cl of
        Inl x \<Rightarrow>
          Some (ErrorWithStatus_init (PyStr (res_name r @ '': could not determine status''))
                  BlockedStatus)
      | Inr result \<Rightarrow> result)
     # check_each ready c rs cl"

definition check_resources :: "(resource \<Rightarrow> string \<Rightarrow> string option) \<Rightarrow> check_resources_fn" where
  "check_resources ready c rs cl =
     (let errors = check_each ready c rs cl
      in Inr (list_all (\<lambda>error. error = None) errors, errors))"

section \<open>Example collaborators\<close>

text \<open>
  Concrete resources, clients, libraries and handlers, on which the theorems below are
  run: a client that creates or updates what it is given and whose read of the resource
  "db" fails; a client whose apply is always denied with code 403; and a client whose
  apply only creates, and fails with code 409 on a resource that exists.
\<close>

definition example_web :: resource where
  "example_web =
     \<lparr>res_kind = ''Deployment'', res_namespace = Some ''kubeflow'', res_name = ''web'',
      res_body = ''replicas: 2''\<rparr>"

definition example_db :: resource where
  "example_db =
     \<lparr>res_kind = ''StatefulSet'', res_namespace = Some ''kubeflow'', res_name = ''db'',
      res_body = ''replicas: 1''\<rparr>"

definition example_role :: resource where
  "example_role =
     \<lparr>res_kind = ''ClusterRole'', res_namespace = None, res_name = ''admin'',
      res_body = ''rules: all''\<rparr>"

definition create_or_update :: "resource list \<Rightarrow> cluster \<Rightarrow> cluster" where
  "create_or_update rs cl = fold (\<lambda>r m. m(rid r \<mapsto> res_body r)) rs cl"

definition example_client :: client where
  "example_client =
     \<lparr>field_manager = ''app'',
      apply_many = (\<lambda>rs cl. (None, create_or_update rs cl)),
      get = (\<lambda>r cl. if res_name r = ''db'' then Inl (OtherException ''connection reset'')
                     else Inr (cl (rid r)))\<rparr>"

definition forbidden_client :: client where
  "forbidden_client =
     \<lparr>field_manager = ''app'',
      apply_many = (\<lambda>rs cl. (Some (ApiError \<lparr>code = 403, api_message = ''Forbidden''\<rparr>), cl)),
      get = (\<lambda>r cl. Inr (cl (rid r)))\<rparr>"

definition create_only_client :: client where
  "create_only_client =
     \<lparr>field_manager = ''app'',
      apply_many = (\<lambda>rs cl. if list_ex (\<lambda>r. cl (rid r) \<noteq> None) rs
                       then (Some (ApiError \<lparr>code = 409, api_message = ''AlreadyExists''\<rparr>), cl)
                       else (None, create_or_update rs cl)),
      get = (\<lambda>r cl. Inr (cl (rid r)))\<rparr>"

definition example_env :: env where
  "example_env =
     \<lparr>read_text = (\<lambda>f. Inr f),
      render_template = (\<lambda>t c. Inr t),
      load_all_yaml = (\<lambda>t. Inr [example_web]),
      format_context = (\<lambda>c. ''{}''),
      new_Client = (\<lambda>n. example_client)\<rparr>"

definition example_ready :: "resource \<Rightarrow> string \<Rightarrow> string option" where
  "example_ready r live = (if live = res_body r then None else Some ''0/2 replicas'')"

definition example_handler :: "bool \<Rightarrow> client option \<Rightarrow> cluster \<Rightarrow> handler" where
  "example_handler leader c cl =
     \<lparr>handler_charm =
        \<lparr>unit_is_leader = leader, template_files = [''web.yaml.j2''], context_for_render = []\<rparr>,
      private_lightkube_client = c,
      app_name = Some ''app'',
      log = [],
      cluster = cl,
      calls = []\<rparr>"

section \<open>Auxiliary facts\<close>

lemma str_int_42: "str_int 42 = ''42''"
  by (simp add: str_int_def str_nat.simps digit_char_def)

lemma log_at_fields [simp]:
  "handler_charm (log_at l m h) = handler_charm h"
  "private_lightkube_client (log_at l m h) = private_lightkube_client h"
  "app_name (log_at l m h) = app_name h"
  "cluster (log_at l m h) = cluster h"
  "calls (log_at l m h) = calls h"
  "log (log_at l m h) = log h @ [(l, m)]"
  by (simp_all add: log_at_def)

lemma called_fields [simp]:
  "handler_charm (called k h) = handler_charm h"
  "private_lightkube_client (called k h) = private_lightkube_client h"
  "app_name (called k h) = app_name h"
  "cluster (called k h) = cluster h"
  "calls (called k h) = calls h @ [k]"
  "log (called k h) = log h"
  by (simp_all add: called_def)

lemma lightkube_client_value:
  "fst (lightkube_client ev h) =
     (case private_lightkube_client h of
        Some c \<Rightarrow> Inr c
      | None \<Rightarrow>
          (case app_name h of
             None \<Rightarrow> Inl (AttributeError ''KubernetesResourceHandler object has no attribute app_name'')
           | Some n \<Rightarrow> Inr (new_Client ev n)))"
  by (simp add: lightkube_client_def split: option.splits)

lemma lightkube_client_state:
  "handler_charm (snd (lightkube_client ev h)) = handler_charm h"
  "app_name (snd (lightkube_client ev h)) = app_name h"
  "cluster (snd (lightkube_client ev h)) = cluster h"
  "calls (snd (lightkube_client ev h)) = calls h"
  "log (snd (lightkube_client ev h)) = log h"
  by (simp_all add: lightkube_client_def split: option.splits)

lemma lightkube_client_kept:
  "fst (lightkube_client ev h) = Inr c \<Longrightarrow> private_lightkube_client (snd (lightkube_client ev h)) = Some c"
  by (auto simp: lightkube_client_def split: option.splits)


lemma render_parts_state:
  "handler_charm (snd (render_parts ev ctxt fs parts h)) = handler_charm h
   \<and> private_lightkube_client (snd (render_parts ev ctxt fs parts h)) = private_lightkube_client h
   \<and> app_name (snd (render_parts ev ctxt fs parts h)) = app_name h
   \<and> cluster (snd (render_parts ev ctxt fs parts h)) = cluster h
   \<and> calls (snd (render_parts ev ctxt fs parts h)) = calls h"
  by (induction fs arbitrary: parts h) (simp_all add: Let_def split: sum.splits)

lemma render_parts_value:
  "fst (render_parts ev ctxt fs parts h) = fst (render_parts ev ctxt fs parts h')"
proof (induction fs arbitrary: parts h h')
  case Nil
  show ?case by simp
next
  case (Cons f fs)
  show ?case
  proof (cases "read_text ev f")
    case (Inl x)
    then show ?thesis by (simp add: Let_def)
  next
    case (Inr content)
    note rt = this
    show ?thesis
    proof (cases "render_template ev content ctxt")
      case (Inl x)
      with rt show ?thesis by (simp add: Let_def)
    next
      case (Inr rendered)
      with rt show ?thesis
        using Cons.IH [of "parts @ [rendered]"
            "log_at DEBUG (''Rendered manifest:\<newline>'' @ rendered)
               (log_at DEBUG (''Rendering manifest for '' @ f) h)"
            "log_at DEBUG (''Rendered manifest:\<newline>'' @ rendered)
               (log_at DEBUG (''Rendering manifest for '' @ f) h')"]
        by (simp add: Let_def)
    qed
  qed
qed


lemma render_manifests_unfold:
  "render_manifests ev h =
     (case render_parts ev (context_for_render (handler_charm h))
             (template_files (handler_charm h)) []
             (log_at DEBUG (''Rendering with context: ''
                 @ format_context ev (context_for_render (handler_charm h)))
               (log_at INFO ''Rendering manifests'' (called Render_manifests h))) of
        (Inl x, h3) \<Rightarrow> (Inl x, h3)
      | (Inr manifest_parts, h3) \<Rightarrow>
          (load_all_yaml ev (join ''\<newline>---\<newline>'' manifest_parts), h3))"
  by (simp add: render_manifests_def Let_def)

lemma snd_case_result:
  "snd (case p of (Inl x, k) \<Rightarrow> (Inl x, k) | (Inr y, k) \<Rightarrow> (f y, k)) = snd p"
  by (cases p; cases "fst p") auto

lemma fst_case_result:
  "fst (case p of (Inl x, k) \<Rightarrow> (Inl x, k) | (Inr y, k) \<Rightarrow> (f y, k))
     = (case fst p of Inl x \<Rightarrow> Inl x | Inr y \<Rightarrow> f y)"
  by (cases p; cases "fst p") auto

lemma render_manifests_snd:
  "snd (render_manifests ev h) =
     snd (render_parts ev (context_for_render (handler_charm h))
             (template_files (handler_charm h)) []
             (log_at DEBUG (''Rendering with context: ''
                 @ format_context ev (context_for_render (handler_charm h)))
               (log_at INFO ''Rendering manifests'' (called Render_manifests h))))"
  unfolding render_manifests_unfold by (rule snd_case_result)

lemma render_manifests_fst:
  "fst (render_manifests ev h) =
     (case fst (render_parts ev (context_for_render (handler_charm h))
             (template_files (handler_charm h)) []
             (log_at DEBUG (''Rendering with context: ''
                 @ format_context ev (context_for_render (handler_charm h)))
               (log_at INFO ''Rendering manifests'' (called Render_manifests h)))) of
        Inl x \<Rightarrow> Inl x
      | Inr manifest_parts \<Rightarrow> load_all_yaml ev (join ''\<newline>---\<newline>'' manifest_parts))"
  unfolding render_manifests_unfold by (rule fst_case_result)

lemma render_manifests_state:
  "handler_charm (snd (render_manifests ev h)) = handler_charm h"
  "private_lightkube_client (snd (render_manifests ev h)) = private_lightkube_client h"
  "app_name (snd (render_manifests ev h)) = app_name h"
  "cluster (snd (render_manifests ev h)) = cluster h"
  "calls (snd (render_manifests ev h)) = calls h @ [Render_manifests]"
  by (simp_all add: render_manifests_snd render_parts_state)

lemma render_manifests_value:
  assumes "handler_charm h' = handler_charm h"
  shows "fst (render_manifests ev h') = fst (render_manifests ev h)"
  unfolding render_manifests_fst assms
  using render_parts_value [of ev "context_for_render (handler_charm h)"
      "template_files (handler_charm h)" "[]"
      "log_at DEBUG (''Rendering with context: ''
                 @ format_context ev (context_for_render (handler_charm h)))
               (log_at INFO ''Rendering manifests'' (called Render_manifests h'))"
      "log_at DEBUG (''Rendering with context: ''
                 @ format_context ev (context_for_render (handler_charm h)))
               (log_at INFO ''Rendering manifests'' (called Render_manifests h))"]
  by simp

lemma resources_or_render_state:
  "handler_charm (snd (resources_or_render ev h resources)) = handler_charm h"
  "private_lightkube_client (snd (resources_or_render ev h resources)) = private_lightkube_client h"
  "app_name (snd (resources_or_render ev h resources)) = app_name h"
  "cluster (snd (resources_or_render ev h resources)) = cluster h"
  by (simp_all add: resources_or_render_def render_manifests_state split: option.splits)

lemma resources_or_render_calls:
  "calls (snd (resources_or_render ev h resources)) =
     (case resources of None \<Rightarrow> calls h @ [Render_manifests] | Some rs \<Rightarrow> calls h)"
  by (simp add: resources_or_render_def render_manifests_state split: option.splits)

lemma resources_or_render_value:
  "handler_charm h' = handler_charm h \<Longrightarrow>
   fst (resources_or_render ev h' resources) = fst (resources_or_render ev h resources)"
  using render_manifests_value [of h' h ev]
  by (simp add: resources_or_render_def split: option.splits)

lemma worst_from_split:
  "\<exists>pre post. cached # es = pre @ worst_from cached es # post
      \<and> (\<forall>e\<in>set pre. severity (status_type e) < severity (status_type (worst_from cached es)))
      \<and> (\<forall>e\<in>set post. severity (status_type e) \<le> severity (status_type (worst_from cached es)))"
proof (induction es arbitrary: cached)
  case Nil
  have "[cached] = [] @ cached # []
      \<and> (\<forall>e\<in>set []. severity (status_type e) < severity (status_type cached))
      \<and> (\<forall>e\<in>set []. severity (status_type e) \<le> severity (status_type cached))"
    by simp
  then show ?case unfolding worst_from.simps by blast
next
  case (Cons e es)
  show ?case
  proof (cases "severity (status_type cached) < severity (status_type e)")
    case True
    define w where "w = worst_from e es"
    have step: "worst_from cached (e # es) = w"
      using True by (simp add: w_def)
    from Cons.IH [of e] obtain pre post where
      split: "e # es = pre @ w # post"
      and before: "\<forall>a\<in>set pre. severity (status_type a) < severity (status_type w)"
      and after: "\<forall>a\<in>set post. severity (status_type a) \<le> severity (status_type w)"
      unfolding w_def by blast
    have "severity (status_type e) \<le> severity (status_type w)"
    proof (cases pre)
      case Nil
      with split show ?thesis by simp
    next
      case (Cons a pre')
      with split before show ?thesis by auto
    qed
    with True have "severity (status_type cached) < severity (status_type w)"
      by simp
    with split before after have
      "cached # e # es = (cached # pre) @ w # post
       \<and> (\<forall>a\<in>set (cached # pre). severity (status_type a) < severity (status_type w))
       \<and> (\<forall>a\<in>set post. severity (status_type a) \<le> severity (status_type w))"
      by simp
    then show ?thesis unfolding step by blast
  next
    case False
    define w where "w = worst_from cached es"
    have step: "worst_from cached (e # es) = w"
      using False by (simp add: w_def)
    from Cons.IH [of cached] obtain pre post where
      split: "cached # es = pre @ w # post"
      and before: "\<forall>a\<in>set pre. severity (status_type a) < severity (status_type w)"
      and after: "\<forall>a\<in>set post. severity (status_type a) \<le> severity (status_type w)"
      unfolding w_def by blast
    show ?thesis
    proof (cases pre)
      case Nil
      with split have "w = cached" and "post = es" by simp_all
      with False after have
        "cached # e # es = [] @ w # (e # es)
         \<and> (\<forall>a\<in>set []. severity (status_type a) < severity (status_type w))
         \<and> (\<forall>a\<in>set (e # es). severity (status_type a) \<le> severity (status_type w))"
        by simp
      then show ?thesis unfolding step by blast
    next
      case (Cons a pre')
      with split have a: "a = cached" and es: "es = pre' @ w # post" by simp_all
      from before Cons a have "severity (status_type cached) < severity (status_type w)"
        by simp
      with False have "severity (status_type e) < severity (status_type w)" by simp
      with before Cons a es after have
        "cached # e # es = (cached # e # pre') @ w # post
         \<and> (\<forall>a\<in>set (cached # e # pre'). severity (status_type a) < severity (status_type w))
         \<and> (\<forall>a\<in>set post. severity (status_type a) \<le> severity (status_type w))"
        by simp
      then show ?thesis unfolding step by blast
    qed
  qed
qed

lemma severity_zero: "severity T = 0 \<longleftrightarrow> T = ActiveStatus"
  by (cases T) simp_all

lemma get_first_worst_error_split:
  assumes "es \<noteq> []"
  shows "\<exists>pre post. es = pre @ get_first_worst_error es # post
      \<and> (\<forall>e\<in>set pre. severity (status_type e) < severity (status_type (get_first_worst_error es)))
      \<and> (\<forall>e\<in>set post. severity (status_type e) \<le> severity (status_type (get_first_worst_error es)))"
proof -
  from assms obtain e rest where es: "es = e # rest" by (cases es) auto
  then have "get_first_worst_error es = worst_from e rest"
    by (simp add: get_first_worst_error_def)
  with worst_from_split [of e rest] es show ?thesis by simp
qed

lemma get_first_worst_error_healthy:
  "status_class (status_of (get_first_worst_error es)) = ActiveStatus
     \<longleftrightarrow> (\<forall>e\<in>set es. status_type e = ActiveStatus)"
proof (cases es)
  case Nil
  then show ?thesis
    by (simp add: get_first_worst_error_def ErrorWithStatus_init_def status_of_def new_status_def)
next
  case (Cons e rest)
  then have ne: "es \<noteq> []" by simp
  from get_first_worst_error_split [OF ne] obtain pre post where
    split: "es = pre @ get_first_worst_error es # post"
    and before: "\<forall>a\<in>set pre. severity (status_type a) < severity (status_type (get_first_worst_error es))"
    and after: "\<forall>a\<in>set post. severity (status_type a) \<le> severity (status_type (get_first_worst_error es))"
    by blast
  have cls: "status_class (status_of (get_first_worst_error es)) = status_type (get_first_worst_error es)"
    by (simp add: status_of_def new_status_def)
  show ?thesis
  proof
    assume "status_class (status_of (get_first_worst_error es)) = ActiveStatus"
    with cls have z: "severity (status_type (get_first_worst_error es)) = 0" by simp
    have "\<forall>a\<in>set es. severity (status_type a) = 0"
    proof
      fix a assume "a \<in> set es"
      with split have "a \<in> set pre \<or> a = get_first_worst_error es \<or> a \<in> set post"
        by (metis Un_iff set_ConsD set_append)
      with before after z show "severity (status_type a) = 0" by auto
    qed
    then show "\<forall>a\<in>set es. status_type a = ActiveStatus"
      by (simp add: severity_zero)
  next
    assume all: "\<forall>a\<in>set es. status_type a = ActiveStatus"
    from split have "get_first_worst_error es \<in> set es"
      by (metis in_set_conv_decomp)
    with all cls show "status_class (status_of (get_first_worst_error es)) = ActiveStatus"
      by simp
  qed
qed


lemma resource_status_leader:
  assumes leader: "unit_is_leader (handler_charm h)"
    and rs: "fst (resources_or_render ev h resources) = Inr rs"
    and c: "fst (lightkube_client ev h) = Inr c"
  shows "resource_status cr g ev h resources =
         (let h4 = called (Check_resources rs)
                     (snd (lightkube_client ev
                        (snd (resources_or_render ev (log_at INFO ''Computing status'' h) resources))))
          in case cr c rs (cluster h) of
            Inl x \<Rightarrow> (Inl x, h4)
          | Inr (charm_ok, errors) \<Rightarrow>
              if charm_ok then
                (Inr (new_status ActiveStatus []), log_at INFO ''Status: active'' h4)
              else
                (Inr (status_of (g (List.map_filter id errors))),
                 (log_at INFO ''Charm is not active due to one or more issues:'' h4)
                   \<lparr>log := log (log_at INFO ''Charm is not active due to one or more issues:'' h4)
                        @ issue_lines (List.map_filter id errors)\<rparr>))"
proof -
  let ?h1 = "log_at INFO ''Computing status'' h"
  obtain r2 h2 where ror: "resources_or_render ev ?h1 resources = (r2, h2)"
    by (cases "resources_or_render ev ?h1 resources")
  have "fst (resources_or_render ev ?h1 resources) = fst (resources_or_render ev h resources)"
    by (rule resources_or_render_value) simp
  with ror rs have r2: "r2 = Inr rs" by simp
  from ror have h2: "h2 = snd (resources_or_render ev ?h1 resources)" by simp
  obtain r3 h3 where lc: "lightkube_client ev h2 = (r3, h3)"
    by (cases "lightkube_client ev h2")
  have "fst (lightkube_client ev h2) = fst (lightkube_client ev h)"
    by (simp add: lightkube_client_value h2 resources_or_render_state split: option.splits)
  with lc c have r3: "r3 = Inr c" by simp
  from lc have h3: "h3 = snd (lightkube_client ev h2)" by simp
  have cl: "cluster h3 = cluster h"
    by (simp add: h3 lightkube_client_state h2 resources_or_render_state)
  have il: "is_leader (handler_charm ?h1) None = Inr True"
    using leader by (simp add: is_leader_def)
  have "resource_status cr g ev h resources =
         (let h4 = called (Check_resources rs) h3 in
          case cr c rs (cluster h) of
            Inl x \<Rightarrow> (Inl x, h4)
          | Inr (charm_ok, errors) \<Rightarrow>
              if charm_ok then
                (Inr (new_status ActiveStatus []), log_at INFO ''Status: active'' h4)
              else
                (Inr (status_of (g (List.map_filter id errors))),
                 (log_at INFO ''Charm is not active due to one or more issues:'' h4)
                   \<lparr>log := log (log_at INFO ''Charm is not active due to one or more issues:'' h4)
                        @ issue_lines (List.map_filter id errors)\<rparr>))"
    using il ror [unfolded r2] lc [unfolded r3]
    by (simp add: resource_status_def Let_def cl split: sum.splits)
  then show ?thesis unfolding h3 h2 .
qed

lemma reconcile_resources_with_client:
  assumes rs: "fst (resources_or_render ev h resources) = Inr rs"
    and c: "fst (lightkube_client ev h) = Inr c"
  shows "reconcile_resources ev h resources =
         (let h5 = (called (Apply_many rs)
                     (snd (lightkube_client ev
                        (log_at DEBUG (''Applying '' @ str_nat (length rs) @ '' resources'')
                           (snd (resources_or_render ev (log_at INFO ''Reconciling'' h) resources))))))
                   \<lparr>cluster := snd (apply_many c rs (cluster h))\<rparr>
          in case fst (apply_many c rs (cluster h)) of
               None \<Rightarrow> (Inr (), log_at INFO ''Reconcile completed successfully'' h5)
             | Some (ApiError e) \<Rightarrow>
                 if code e = 403 then
                   (Inl (ReconcileError
                           (ErrorWithStatus_init
                              (PyStr ''Cannot create required resources.  Charm may be missing `--trust`'')
                              BlockedStatus)),
                    log_at ERROR (''Error received: '' @ api_message e)
                      (log_at ERROR
                         (''Received Forbidden (403) error from lightkube when creating resources.  ''
                          @ ''This may be due to the charm lacking permissions to create cluster-scoped ''
                          @ ''roles and resources.  Charm must be deployed with `--trust`'')
                         h5))
                 else (Inl (ApiError e), h5)
             | Some x \<Rightarrow> (Inl x, h5))"
proof -
  let ?h1 = "log_at INFO ''Reconciling'' h"
  obtain r2 h2 where ror: "resources_or_render ev ?h1 resources = (r2, h2)"
    by (cases "resources_or_render ev ?h1 resources")
  have "fst (resources_or_render ev ?h1 resources) = fst (resources_or_render ev h resources)"
    by (rule resources_or_render_value) simp
  with ror rs have r2: "r2 = Inr rs" by simp
  from ror have h2: "h2 = snd (resources_or_render ev ?h1 resources)" by simp
  let ?h3 = "log_at DEBUG (''Applying '' @ str_nat (length rs) @ '' resources'') h2"
  obtain r4 h4 where lc: "lightkube_client ev ?h3 = (r4, h4)"
    by (cases "lightkube_client ev ?h3")
  have "fst (lightkube_client ev ?h3) = fst (lightkube_client ev h)"
    by (simp add: lightkube_client_value h2 resources_or_render_state split: option.splits)
  with lc c have r4: "r4 = Inr c" by simp
  from lc have h4: "h4 = snd (lightkube_client ev ?h3)" by simp
  have cl: "cluster h4 = cluster h"
    by (simp add: h4 lightkube_client_state h2 resources_or_render_state)
  obtain failure cl' where am: "apply_many c rs (cluster h) = (failure, cl')"
    by (cases "apply_many c rs (cluster h)")
  have "reconcile_resources ev h resources =
         (let h5 = (called (Apply_many rs) h4)\<lparr>cluster := snd (apply_many c rs (cluster h))\<rparr>
          in case fst (apply_many c rs (cluster h)) of
               None \<Rightarrow> (Inr (), log_at INFO ''Reconcile completed successfully'' h5)
             | Some (ApiError e) \<Rightarrow>
                 if code e = 403 then
                   (Inl (ReconcileError
                           (ErrorWithStatus_init
                              (PyStr ''Cannot create required resources.  Charm may be missing `--trust`'')
                              BlockedStatus)),
                    log_at ERROR (''Error received: '' @ api_message e)
                      (log_at ERROR
                         (''Received Forbidden (403) error from lightkube when creating resources.  ''
                          @ ''This may be due to the charm lacking permissions to create cluster-scoped ''
                          @ ''roles and resources.  Charm must be deployed with `--trust`'')
                         h5))
                 else (Inl (ApiError e), h5)
             | Some x \<Rightarrow> (Inl x, h5))"
    using ror [unfolded r2] lc [unfolded r4] am
    by (simp add: reconcile_resources_def Let_def cl split: option.splits exn.splits)
  then show ?thesis unfolding h4 h2 .
qed

lemma reconcile_resources_without_client:
  assumes rs: "fst (resources_or_render ev h resources) = Inr rs"
    and c: "fst (lightkube_client ev h) = Inl x"
  shows "reconcile_resources ev h resources =
           (Inl x, snd (lightkube_client ev
                        (log_at DEBUG (''Applying '' @ str_nat (length rs) @ '' resources'')
                           (snd (resources_or_render ev (log_at INFO ''Reconciling'' h) resources)))))"
proof -
  let ?h1 = "log_at INFO ''Reconciling'' h"
  obtain r2 h2 where ror: "resources_or_render ev ?h1 resources = (r2, h2)"
    by (cases "resources_or_render ev ?h1 resources")
  have "fst (resources_or_render ev ?h1 resources) = fst (resources_or_render ev h resources)"
    by (rule resources_or_render_value) simp
  with ror rs have r2: "r2 = Inr rs" by simp
  from ror have h2: "h2 = snd (resources_or_render ev ?h1 resources)" by simp
  let ?h3 = "log_at DEBUG (''Applying '' @ str_nat (length rs) @ '' resources'') h2"
  obtain r4 h4 where lc: "lightkube_client ev ?h3 = (r4, h4)"
    by (cases "lightkube_client ev ?h3")
  have "fst (lightkube_client ev ?h3) = fst (lightkube_client ev h)"
    by (simp add: lightkube_client_value h2 resources_or_render_state split: option.splits)
  with lc c have r4: "r4 = Inl x" by simp
  from lc have h4: "h4 = snd (lightkube_client ev ?h3)" by simp
  have "reconcile_resources ev h resources = (Inl x, h4)"
    using ror [unfolded r2] lc [unfolded r4]
    by (simp add: reconcile_resources_def Let_def)
  then show ?thesis unfolding h4 h2 .
qed

lemma reconcile_resources_calls:
  assumes rs: "fst (resources_or_render ev h resources) = Inr rs"
  shows "calls (snd (reconcile_resources ev h resources)) =
           calls h @ (case resources of None \<Rightarrow> [Render_manifests] | Some given \<Rightarrow> [])
             @ (case fst (lightkube_client ev h) of Inl x \<Rightarrow> [] | Inr c \<Rightarrow> [Apply_many rs])"
proof (cases "fst (lightkube_client ev h)")
  case (Inl x)
  show ?thesis
    by (simp add: reconcile_resources_without_client [OF rs Inl] Inl lightkube_client_state
          resources_or_render_calls split: option.splits)
next
  case (Inr c)
  show ?thesis
    by (simp add: reconcile_resources_with_client [OF rs Inr] Inr Let_def lightkube_client_state
          resources_or_render_calls split: option.splits exn.splits)
qed

lemma reconcile_resources_cluster:
  assumes rs: "fst (resources_or_render ev h resources) = Inr rs"
  shows "cluster (snd (reconcile_resources ev h resources)) =
           (case fst (lightkube_client ev h) of
              Inl x \<Rightarrow> cluster h
            | Inr c \<Rightarrow> snd (apply_many c rs (cluster h)))"
proof (cases "fst (lightkube_client ev h)")
  case (Inl x)
  show ?thesis
    by (simp add: reconcile_resources_without_client [OF rs Inl] Inl lightkube_client_state
          resources_or_render_state)
next
  case (Inr c)
  show ?thesis
    by (simp add: reconcile_resources_with_client [OF rs Inr] Inr Let_def
          split: option.splits exn.splits)
qed

lemma reconcile_resources_handler:
  assumes rs: "fst (resources_or_render ev h resources) = Inr rs"
    and c: "fst (lightkube_client ev h) = Inr c"
  shows "handler_charm (snd (reconcile_resources ev h resources)) = handler_charm h"
    and "private_lightkube_client (snd (reconcile_resources ev h resources)) = Some c"
proof -
  let ?h3 = "log_at DEBUG (''Applying '' @ str_nat (length rs) @ '' resources'')
               (snd (resources_or_render ev (log_at INFO ''Reconciling'' h) resources))"
  have "fst (lightkube_client ev ?h3) = fst (lightkube_client ev h)"
    by (simp add: lightkube_client_value resources_or_render_state split: option.splits)
  with c have "fst (lightkube_client ev ?h3) = Inr c" by simp
  then have kept: "private_lightkube_client (snd (lightkube_client ev ?h3)) = Some c"
    by (rule lightkube_client_kept)
  show "handler_charm (snd (reconcile_resources ev h resources)) = handler_charm h"
    by (simp add: reconcile_resources_with_client [OF rs c] Let_def lightkube_client_state
          resources_or_render_state split: option.splits exn.splits)
  show "private_lightkube_client (snd (reconcile_resources ev h resources)) = Some c"
    using kept
    by (simp add: reconcile_resources_with_client [OF rs c] Let_def
          split: option.splits exn.splits)
qed

lemma reconcile_resources_success:
  assumes rs: "fst (resources_or_render ev h resources) = Inr rs"
    and c: "fst (lightkube_client ev h) = Inr c"
  shows "fst (reconcile_resources ev h resources) = Inr ()
           \<longleftrightarrow> fst (apply_many c rs (cluster h)) = None"
  by (simp add: reconcile_resources_with_client [OF rs c] Let_def
        split: option.splits exn.splits)

lemma severity_top: "3 \<le> severity T \<longleftrightarrow> T = BlockedStatus"
  by (cases T) simp_all

lemma get_first_worst_error_blocked:
  assumes "e \<in> set es" and "status_type e = BlockedStatus"
  shows "status_type (get_first_worst_error es) = BlockedStatus"
proof -
  from assms(1) have "es \<noteq> []" by auto
  from get_first_worst_error_split [OF this] obtain pre post where
    split: "es = pre @ get_first_worst_error es # post"
    and before: "\<forall>a\<in>set pre. severity (status_type a) < severity (status_type (get_first_worst_error es))"
    and after: "\<forall>a\<in>set post. severity (status_type a) \<le> severity (status_type (get_first_worst_error es))"
    by blast
  from split assms(1) have "e \<in> set pre \<or> e = get_first_worst_error es \<or> e \<in> set post"
    by (metis Un_iff set_ConsD set_append)
  with before after have "severity (status_type e) \<le> severity (status_type (get_first_worst_error es))"
    by auto
  with assms(2) show ?thesis by (simp add: severity_top)
qed

lemma check_each_map:
  "check_each ready c rs cl =
     map (\<lambda>r. case check ready c r cl of
                 Inl x \<Rightarrow>
                   Some (ErrorWithStatus_init (PyStr (res_name r @ '': could not determine status''))
                           BlockedStatus)
               | Inr result \<Rightarrow> result) rs"
  by (induction rs) simp_all

lemma check_lookup_failed: "get c r cl = Inl x \<Longrightarrow> check ready c r cl = Inl x"
  by (simp add: check_def)

lemma issue_lines_nth:
  "length (issue_lines es) = length es
   \<and> (\<forall>i<length es. issue_lines es ! i
         = (INFO, ''Issue '' @ str_nat (i + 1) @ ''/'' @ str_nat (length es) @ '': '' @ msg (es ! i)))"
  by (simp add: issue_lines_def nth_enumerate_eq)

lemma in_map_filter_id: "e \<in> set (List.map_filter id xs) \<longleftrightarrow> Some e \<in> set xs"
  by (induction xs) (auto split: option.splits)
section \<open>The status-bearing errors and the leadership check\<close>

text \<open>
  Claim C10. For every message \<open>m\<close> and status type \<open>T\<close>, \<^verbatim>\<open>ErrorWithStatus(m, T)\<close>
  stores \<^verbatim>\<open>str(m)\<close> both as the exception message and as the attribute \<^verbatim>\<open>msg\<close>, and
  its property \<^verbatim>\<open>status\<close> is \<open>T\<close> applied to that same string; a message that is not a
  string is coerced, so the integer 42 arrives as the string "42".
\<close>

theorem ErrorWithStatus_carries_str_of_msg:
  "exception_message (ErrorWithStatus_init m T) = str m
   \<and> msg (ErrorWithStatus_init m T) = str m
   \<and> status_type (ErrorWithStatus_init m T) = T
   \<and> status_of (ErrorWithStatus_init m T) = new_status T (str m)
   \<and> message (status_of (ErrorWithStatus_init m T)) = exception_message (ErrorWithStatus_init m T)
   \<and> status_of (ErrorWithStatus_init (PyInt 42) T) = new_status T ''42''"
  by (simp add: ErrorWithStatus_init_def status_of_def new_status_def str_int_42)

text \<open>
  Claim C7, as stated: every instance of \<^verbatim>\<open>LeadershipError\<close> has a \<^verbatim>\<open>WaitingStatus\<close>
  status. It fails for an instance built with another status type:
  \<^verbatim>\<open>LeadershipError(status_type=BlockedStatus).status\<close> is a \<^verbatim>\<open>BlockedStatus\<close>.
\<close>

theorem LeadershipError_not_always_waiting:
  "status_class (status_of (LeadershipError_init None (Some BlockedStatus))) = BlockedStatus
   \<and> status_class (status_of (LeadershipError_init None (Some BlockedStatus))) \<noteq> WaitingStatus"
  by (simp add: LeadershipError_init_def ErrorWithStatus_init_def status_of_def new_status_def)

text \<open>
  Claim C7, amended. A \<^verbatim>\<open>LeadershipError\<close> built without a status type has a
  \<^verbatim>\<open>WaitingStatus\<close> status, whatever its message (by default "Waiting for leadership");
  built with a status type, its status is of that type; and the error that
  \<^verbatim>\<open>is_leader\<close> raises is the default one, so whenever \<^verbatim>\<open>is_leader\<close> fails the status
  carried is \<^verbatim>\<open>WaitingStatus("Waiting for leadership")\<close>.
\<close>

theorem LeadershipError_default_is_waiting:
  "status_of (LeadershipError_init m None)
     = new_status WaitingStatus (case m of None \<Rightarrow> ''Waiting for leadership'' | Some v \<Rightarrow> str v)
   \<and> status_class (status_of (LeadershipError_init m (Some T))) = T
   \<and> (is_leader c r = Inl x \<longrightarrow>
        (\<exists>e. x = LeadershipError e
           \<and> status_of e = new_status WaitingStatus ''Waiting for leadership''))"
  by (auto simp: LeadershipError_init_def ErrorWithStatus_init_def status_of_def new_status_def
        is_leader_def split: option.splits if_splits)

theorem LeadershipError_default_is_waiting_witness:
  "is_leader \<lparr>unit_is_leader = False, template_files = [], context_for_render = []\<rparr> None
     = Inl (LeadershipError (LeadershipError_init None None))
   \<and> status_of (LeadershipError_init None None)
       = new_status WaitingStatus ''Waiting for leadership''
   \<and> (\<exists>e. LeadershipError (LeadershipError_init None None) = LeadershipError e
         \<and> status_of e = new_status WaitingStatus ''Waiting for leadership'')"
  using LeadershipError_default_is_waiting
    [of None "BlockedStatus"
        "\<lparr>unit_is_leader = False, template_files = [], context_for_render = []\<rparr>" None
        "LeadershipError (LeadershipError_init None None)"]
  by (simp add: is_leader_def)

text \<open>
  Claim C8, as stated: \<^verbatim>\<open>is_leader\<close> returns \<^verbatim>\<open>False\<close> for a unit that is not the leader,
  rather than failing. It fails for the plain call \<^verbatim>\<open>is_leader(charm)\<close>, which raises
  \<^verbatim>\<open>LeadershipError\<close>: the parameter \<^verbatim>\<open>raise_if_not_leader\<close> defaults to \<^verbatim>\<open>True\<close>.
\<close>

theorem is_leader_default_raises:
  "is_leader \<lparr>unit_is_leader = False, template_files = [], context_for_render = []\<rparr> None
     \<noteq> Inr False
   \<and> is_leader \<lparr>unit_is_leader = False, template_files = [], context_for_render = []\<rparr> None
     = Inl (LeadershipError
         \<lparr>exception_message = ''Waiting for leadership'', msg = ''Waiting for leadership'',
          status_type = WaitingStatus\<rparr>)"
  by (simp add: is_leader_def LeadershipError_init_def ErrorWithStatus_init_def)

text \<open>
  Claim C8, amended. \<^verbatim>\<open>is_leader\<close> returns \<^verbatim>\<open>True\<close> when the unit is the leader. When it
  is not, \<^verbatim>\<open>is_leader\<close> returns \<^verbatim>\<open>False\<close> only if called with
  \<^verbatim>\<open>raise_if_not_leader=False\<close>; otherwise (the default included) it raises the default
  \<^verbatim>\<open>LeadershipError\<close>.
\<close>

theorem is_leader_result:
  "is_leader c r =
     (if unit_is_leader c then Inr True
      else if r = Some False then Inr False
      else Inl (LeadershipError (LeadershipError_init None None)))"
  by (cases r) (auto simp: is_leader_def)

theorem is_leader_result_witness:
  "is_leader \<lparr>unit_is_leader = True, template_files = [], context_for_render = []\<rparr> None = Inr True
   \<and> is_leader \<lparr>unit_is_leader = False, template_files = [], context_for_render = []\<rparr>
        (Some False) = Inr False"
  using is_leader_result
    [of "\<lparr>unit_is_leader = True, template_files = [], context_for_render = []\<rparr>" None]
    is_leader_result
    [of "\<lparr>unit_is_leader = False, template_files = [], context_for_render = []\<rparr>" "Some False"]
  by simp
section \<open>The status pass\<close>

text \<open>
  Claim C3. When the charm's unit is not the leader, \<^verbatim>\<open>resource_status\<close> returns the status
  \<^verbatim>\<open>WaitingStatus("Waiting for leadership")\<close> and does not raise: the
  \<^verbatim>\<open>LeadershipError\<close> is caught in place. The only effect is the log line "Computing
  status": no call is made, so neither \<^verbatim>\<open>render_manifests\<close> nor \<^verbatim>\<open>check_resources\<close> runs,
  whatever \<^verbatim>\<open>check_resources\<close> and \<^verbatim>\<open>get_first_worst_error\<close> are, and the cluster is not
  touched.
\<close>

theorem resource_status_not_leader:
  assumes "\<not> unit_is_leader (handler_charm h)"
  shows "resource_status check_resources_param get_first_worst_error_param ev h resources
           = (Inr (new_status WaitingStatus ''Waiting for leadership''),
              log_at INFO ''Computing status'' h)
         \<and> calls (snd (resource_status check_resources_param get_first_worst_error_param ev h resources))
           = calls h
         \<and> cluster (snd (resource_status check_resources_param get_first_worst_error_param ev h resources))
           = cluster h"
  using assms
  by (simp add: resource_status_def is_leader_def LeadershipError_init_def
        ErrorWithStatus_init_def status_of_def new_status_def Let_def)

theorem resource_status_not_leader_witness:
  "\<not> unit_is_leader (handler_charm (example_handler False None Map.empty))
   \<and> fst (resource_status (check_resources example_ready) get_first_worst_error example_env
        (example_handler False None Map.empty) None)
       = Inr (new_status WaitingStatus ''Waiting for leadership'')
   \<and> calls (snd (resource_status (check_resources example_ready) get_first_worst_error example_env
        (example_handler False None Map.empty) None)) = []
   \<and> log (snd (resource_status (check_resources example_ready) get_first_worst_error example_env
        (example_handler False None Map.empty) None)) = [(INFO, ''Computing status'')]"
  using resource_status_not_leader
    [of "example_handler False None Map.empty" "check_resources example_ready"
        get_first_worst_error example_env None]
  by (simp add: example_handler_def)

text \<open>
  Claim C9. For a leader whose client is available, when \<^verbatim>\<open>check_resources\<close> reports that
  every resource of the desired set is fine (its flag is true), \<^verbatim>\<open>resource_status\<close>
  returns \<^verbatim>\<open>ActiveStatus()\<close>, whose message is empty, and logs "Status: active" and no
  issue line after the resources were determined.
\<close>

theorem resource_status_all_checks_pass:
  assumes "unit_is_leader (handler_charm h)"
    and "fst (resources_or_render ev h resources) = Inr rs"
    and "fst (lightkube_client ev h) = Inr c"
    and "check_resources_param c rs (cluster h) = Inr (True, errors)"
  shows "fst (resource_status check_resources_param get_first_worst_error_param ev h resources)
           = Inr (new_status ActiveStatus [])
         \<and> message (new_status ActiveStatus []) = []
         \<and> log (snd (resource_status check_resources_param get_first_worst_error_param ev h resources))
           = log (snd (resources_or_render ev (log_at INFO ''Computing status'' h) resources))
             @ [(INFO, ''Status: active'')]"
  using assms(4)
  by (simp add: resource_status_leader [OF assms(1-3)] Let_def lightkube_client_state
        new_status_def)

theorem resource_status_all_checks_pass_witness:
  "unit_is_leader (handler_charm (example_handler True None (create_or_update [example_web] Map.empty)))
   \<and> check_resources example_ready example_client [example_web]
        (create_or_update [example_web] Map.empty) = Inr (True, [None])
   \<and> fst (resource_status (check_resources example_ready) get_first_worst_error example_env
        (example_handler True None (create_or_update [example_web] Map.empty))
        (Some [example_web]))
       = Inr (new_status ActiveStatus [])
   \<and> log (snd (resource_status (check_resources example_ready) get_first_worst_error example_env
        (example_handler True None (create_or_update [example_web] Map.empty))
        (Some [example_web])))
       = [(INFO, ''Computing status''), (INFO, ''Status: active'')]"
proof -
  let ?h = "example_handler True None (create_or_update [example_web] Map.empty)"
  have leader: "unit_is_leader (handler_charm ?h)"
    by (simp add: example_handler_def)
  have rs: "fst (resources_or_render example_env ?h (Some [example_web])) = Inr [example_web]"
    by (simp add: resources_or_render_def)
  have c: "fst (lightkube_client example_env ?h) = Inr example_client"
    by (simp add: lightkube_client_def example_handler_def example_env_def)
  have ok: "check_resources example_ready example_client [example_web] (cluster ?h)
              = Inr (True, [None])"
    by (simp add: check_resources_def check_def example_client_def example_web_def
          example_ready_def example_handler_def create_or_update_def rid_def)
  from resource_status_all_checks_pass
         [where check_resources_param = "check_resources example_ready"
            and get_first_worst_error_param = get_first_worst_error,
          OF leader rs c ok]
       leader ok
  show ?thesis
    by (simp add: resources_or_render_def example_handler_def)
qed
section \<open>The reconcile pass\<close>

text \<open>
  Claim C2. When the client's \<^verbatim>\<open>apply_many\<close> fails with an \<^verbatim>\<open>ApiError\<close> whose code is 403,
  \<^verbatim>\<open>reconcile_resources\<close> fails with a \<^verbatim>\<open>ReconcileError\<close> whose status is
  \<^verbatim>\<open>BlockedStatus\<close> with the fixed, non-empty message "Cannot create required resources.
  Charm may be missing `--trust`", the same whatever the resources and the error. When
  the code is another one, \<^verbatim>\<open>reconcile_resources\<close> fails with the \<^verbatim>\<open>ApiError\<close> it
  received, unchanged.
\<close>

theorem reconcile_resources_api_error:
  assumes rs: "fst (resources_or_render ev h resources) = Inr rs"
    and c: "fst (lightkube_client ev h) = Inr c"
    and failed: "fst (apply_many c rs (cluster h)) = Some (ApiError e)"
  shows "(code e = 403 \<longrightarrow>
            (\<exists>err. fst (reconcile_resources ev h resources) = Inl (ReconcileError err)
               \<and> status_of err
                   = new_status BlockedStatus
                       ''Cannot create required resources.  Charm may be missing `--trust`''
               \<and> message (status_of err) \<noteq> []))
         \<and> (code e \<noteq> 403 \<longrightarrow> fst (reconcile_resources ev h resources) = Inl (ApiError e))"
  using failed
  by (simp add: reconcile_resources_with_client [OF rs c] Let_def ErrorWithStatus_init_def
        status_of_def new_status_def)

theorem reconcile_resources_api_error_witness:
  "fst (apply_many forbidden_client [example_web] Map.empty)
     = Some (ApiError \<lparr>code = 403, api_message = ''Forbidden''\<rparr>)
   \<and> (\<exists>err. fst (reconcile_resources example_env
                   (example_handler True (Some forbidden_client) Map.empty) (Some [example_web]))
               = Inl (ReconcileError err)
          \<and> status_class (status_of err) = BlockedStatus
          \<and> message (status_of err)
              = ''Cannot create required resources.  Charm may be missing `--trust`'')
   \<and> fst (apply_many create_only_client [example_web] (create_or_update [example_web] Map.empty))
     = Some (ApiError \<lparr>code = 409, api_message = ''AlreadyExists''\<rparr>)
   \<and> fst (reconcile_resources example_env
            (example_handler True (Some create_only_client) (create_or_update [example_web] Map.empty))
            (Some [example_web]))
       = Inl (ApiError \<lparr>code = 409, api_message = ''AlreadyExists''\<rparr>)"
proof -
  let ?h = "example_handler True (Some forbidden_client) Map.empty"
  let ?k = "example_handler True (Some create_only_client) (create_or_update [example_web] Map.empty)"
  have rs: "fst (resources_or_render example_env h (Some [example_web])) = Inr [example_web]" for h
    by (simp add: resources_or_render_def)
  have ch: "fst (lightkube_client example_env ?h) = Inr forbidden_client"
    by (simp add: lightkube_client_def example_handler_def)
  have ck: "fst (lightkube_client example_env ?k) = Inr create_only_client"
    by (simp add: lightkube_client_def example_handler_def)
  have fh: "fst (apply_many forbidden_client [example_web] (cluster ?h))
              = Some (ApiError \<lparr>code = 403, api_message = ''Forbidden''\<rparr>)"
    by (simp add: forbidden_client_def)
  have fk: "fst (apply_many create_only_client [example_web] (cluster ?k))
              = Some (ApiError \<lparr>code = 409, api_message = ''AlreadyExists''\<rparr>)"
    by (simp add: create_only_client_def example_handler_def create_or_update_def)
  from reconcile_resources_api_error [OF rs ch fh] reconcile_resources_api_error [OF rs ck fk]
    fh fk
  show ?thesis
    by (auto simp: example_handler_def new_status_def)
qed
text \<open>
  Claim C6. \<^verbatim>\<open>reconcile_resources\<close> makes one call on the client at most, \<^verbatim>\<open>apply_many\<close> on
  the desired set, and rendering apart no other call: no delete is ever issued. With
  \<^verbatim>\<open>apply_many\<close> a create-or-update operation, one that changes no resource outside the
  set it is given, every cluster resource that is not in the desired set is the same
  after the pass as before.
\<close>

theorem reconcile_resources_only_applies:
  assumes rs: "fst (resources_or_render ev h resources) = Inr rs"
    and create_or_update:
      "\<forall>c. fst (lightkube_client ev h) = Inr c \<longrightarrow>
         (\<forall>i. i \<notin> rid ` set rs \<longrightarrow> snd (apply_many c rs (cluster h)) i = cluster h i)"
  shows "(\<forall>i. i \<notin> rid ` set rs \<longrightarrow>
            cluster (snd (reconcile_resources ev h resources)) i = cluster h i)
         \<and> set (calls (snd (reconcile_resources ev h resources)))
             \<subseteq> set (calls h) \<union> {Render_manifests, Apply_many rs}
         \<and> (\<forall>r. Delete r \<in> set (calls (snd (reconcile_resources ev h resources)))
                \<longrightarrow> Delete r \<in> set (calls h))"
proof -
  have frame: "\<forall>i. i \<notin> rid ` set rs \<longrightarrow>
            cluster (snd (reconcile_resources ev h resources)) i = cluster h i"
    using create_or_update
    by (simp add: reconcile_resources_cluster [OF rs] split: sum.splits)
  have issued: "set (calls (snd (reconcile_resources ev h resources)))
             \<subseteq> set (calls h) \<union> {Render_manifests, Apply_many rs}"
    by (auto simp: reconcile_resources_calls [OF rs] split: option.splits sum.splits)
  then have "\<forall>r. Delete r \<in> set (calls (snd (reconcile_resources ev h resources)))
                \<longrightarrow> Delete r \<in> set (calls h)"
    by auto
  with frame issued show ?thesis by blast
qed

theorem reconcile_resources_only_applies_witness:
  "cluster (snd (reconcile_resources example_env
       (example_handler True None (create_or_update [example_role] Map.empty))
       (Some [example_web]))) (rid example_role) = Some ''rules: all''
   \<and> set (calls (snd (reconcile_resources example_env
       (example_handler True None (create_or_update [example_role] Map.empty))
       (Some [example_web])))) \<subseteq> {Render_manifests, Apply_many [example_web]}"
proof -
  let ?h = "example_handler True None (create_or_update [example_role] Map.empty)"
  have rs: "fst (resources_or_render example_env ?h (Some [example_web])) = Inr [example_web]"
    by (simp add: resources_or_render_def)
  have c: "fst (lightkube_client example_env ?h) = Inr example_client"
    by (simp add: lightkube_client_def example_handler_def example_env_def)
  have frame: "\<forall>c. fst (lightkube_client example_env ?h) = Inr c \<longrightarrow>
         (\<forall>i. i \<notin> rid ` set [example_web] \<longrightarrow>
            snd (apply_many c [example_web] (cluster ?h)) i = cluster ?h i)"
    using c by (auto simp: example_client_def create_or_update_def example_handler_def)
  have other: "rid example_role \<notin> rid ` set [example_web]"
    by (simp add: rid_def example_role_def example_web_def)
  have before: "cluster ?h (rid example_role) = Some ''rules: all''"
    by (simp add: example_handler_def create_or_update_def example_role_def)
  have none: "calls ?h = []"
    by (simp add: example_handler_def)
  note run = reconcile_resources_only_applies [OF rs frame]
  from run other have
    "cluster (snd (reconcile_resources example_env ?h (Some [example_web]))) (rid example_role)
       = cluster ?h (rid example_role)"
    by blast
  moreover from run none have
    "set (calls (snd (reconcile_resources example_env ?h (Some [example_web]))))
       \<subseteq> {Render_manifests, Apply_many [example_web]}"
    by simp
  ultimately show ?thesis using before by simp
qed
text \<open>
  Claim C5, as stated: for every desired set, a second call of \<^verbatim>\<open>reconcile_resources\<close> with
  the same set succeeds. It fails when the cluster denies the apply: with a client that
  answers 403 the second call raises \<^verbatim>\<open>ReconcileError\<close> as the first did. And
  \<^verbatim>\<open>reconcile_resources\<close> has no idempotence of its own: with a client whose apply only
  creates, the first call succeeds and the second one fails with the client's 409.
\<close>

theorem reconcile_resources_twice_can_fail:
  "fst (reconcile_resources example_env
        (snd (reconcile_resources example_env
                (example_handler True (Some forbidden_client) Map.empty) (Some [example_web])))
        (Some [example_web])) \<noteq> Inr ()
   \<and> fst (reconcile_resources example_env
        (example_handler True (Some create_only_client) Map.empty) (Some [example_web])) = Inr ()
   \<and> fst (reconcile_resources example_env
        (snd (reconcile_resources example_env
                (example_handler True (Some create_only_client) Map.empty) (Some [example_web])))
        (Some [example_web]))
       = Inl (ApiError \<lparr>code = 409, api_message = ''AlreadyExists''\<rparr>)"
proof -
  let ?f = "example_handler True (Some forbidden_client) Map.empty"
  let ?f1 = "snd (reconcile_resources example_env ?f (Some [example_web]))"
  let ?k = "example_handler True (Some create_only_client) Map.empty"
  let ?k1 = "snd (reconcile_resources example_env ?k (Some [example_web]))"
  have rs: "fst (resources_or_render example_env h (Some [example_web])) = Inr [example_web]" for h
    by (simp add: resources_or_render_def)
  have cf: "fst (lightkube_client example_env ?f) = Inr forbidden_client"
    by (simp add: lightkube_client_def example_handler_def)
  have ck: "fst (lightkube_client example_env ?k) = Inr create_only_client"
    by (simp add: lightkube_client_def example_handler_def)
  have cf1: "fst (lightkube_client example_env ?f1) = Inr forbidden_client"
    by (simp add: lightkube_client_value reconcile_resources_handler [OF rs cf])
  have ck1: "fst (lightkube_client example_env ?k1) = Inr create_only_client"
    by (simp add: lightkube_client_value reconcile_resources_handler [OF rs ck])
  have "fst (reconcile_resources example_env ?f1 (Some [example_web])) \<noteq> Inr ()"
    by (simp only: reconcile_resources_success [OF rs cf1]) (simp add: forbidden_client_def)
  moreover have "fst (reconcile_resources example_env ?k (Some [example_web])) = Inr ()"
    by (simp only: reconcile_resources_success [OF rs ck])
      (simp add: create_only_client_def example_handler_def)
  moreover have "cluster ?k1 = create_or_update [example_web] Map.empty"
    by (simp only: reconcile_resources_cluster [OF rs] ck sum.case)
      (simp add: create_only_client_def example_handler_def)
  then have "fst (reconcile_resources example_env ?k1 (Some [example_web]))
       = Inl (ApiError \<lparr>code = 409, api_message = ''AlreadyExists''\<rparr>)"
    by (simp only: reconcile_resources_with_client [OF rs ck1])
      (simp add: Let_def create_only_client_def create_or_update_def)
  ultimately show ?thesis by simp
qed

text \<open>
  Claim C5, amended. If the first call of \<^verbatim>\<open>reconcile_resources\<close> succeeds, and the client's
  \<^verbatim>\<open>apply_many\<close> is idempotent on the desired set (applied again to the cluster it produced,
  it succeeds and leaves it as it is), then a second call with the same argument succeeds
  and leaves the cluster as the first call left it. The desired set is the same on the
  second call also when it is rendered, and the client is the one kept from the first.
\<close>

theorem reconcile_resources_twice:
  assumes first: "fst (reconcile_resources ev h resources) = Inr ()"
    and rs: "fst (resources_or_render ev h resources) = Inr rs"
    and c: "fst (lightkube_client ev h) = Inr c"
    and idempotent: "\<forall>cl. apply_many c rs (cluster h) = (None, cl) \<longrightarrow> apply_many c rs cl = (None, cl)"
  shows "fst (reconcile_resources ev (snd (reconcile_resources ev h resources)) resources) = Inr ()
         \<and> cluster (snd (reconcile_resources ev (snd (reconcile_resources ev h resources)) resources))
             = cluster (snd (reconcile_resources ev h resources))"
proof -
  let ?h1 = "snd (reconcile_resources ev h resources)"
  let ?cl = "snd (apply_many c rs (cluster h))"
  from first have "fst (apply_many c rs (cluster h)) = None"
    by (simp add: reconcile_resources_success [OF rs c])
  then have "apply_many c rs (cluster h) = (None, ?cl)"
    by (simp add: prod_eq_iff)
  with idempotent have again: "apply_many c rs ?cl = (None, ?cl)" by blast
  have cl1: "cluster ?h1 = ?cl"
    by (simp add: reconcile_resources_cluster [OF rs] c)
  have "fst (resources_or_render ev ?h1 resources) = fst (resources_or_render ev h resources)"
    by (rule resources_or_render_value) (rule reconcile_resources_handler [OF rs c])
  with rs have rs1: "fst (resources_or_render ev ?h1 resources) = Inr rs" by simp
  have c1: "fst (lightkube_client ev ?h1) = Inr c"
    by (simp add: lightkube_client_value reconcile_resources_handler [OF rs c])
  have "fst (reconcile_resources ev ?h1 resources) = Inr ()"
    using again by (simp add: reconcile_resources_success [OF rs1 c1] cl1)
  moreover have "cluster (snd (reconcile_resources ev ?h1 resources)) = cluster ?h1"
    using again by (simp add: reconcile_resources_cluster [OF rs1] c1 cl1)
  ultimately show ?thesis by simp
qed

theorem reconcile_resources_twice_witness:
  "fst (reconcile_resources example_env (example_handler True None Map.empty) (Some [example_web]))
     = Inr ()
   \<and> fst (reconcile_resources example_env
        (snd (reconcile_resources example_env (example_handler True None Map.empty)
                (Some [example_web])))
        (Some [example_web])) = Inr ()
   \<and> cluster (snd (reconcile_resources example_env
        (snd (reconcile_resources example_env (example_handler True None Map.empty)
                (Some [example_web])))
        (Some [example_web])))
       = cluster (snd (reconcile_resources example_env (example_handler True None Map.empty)
                (Some [example_web])))"
proof -
  let ?h = "example_handler True None Map.empty"
  have rs: "fst (resources_or_render example_env ?h (Some [example_web])) = Inr [example_web]"
    by (simp add: resources_or_render_def)
  have c: "fst (lightkube_client example_env ?h) = Inr example_client"
    by (simp add: lightkube_client_def example_handler_def example_env_def)
  have first: "fst (reconcile_resources example_env ?h (Some [example_web])) = Inr ()"
    by (simp only: reconcile_resources_success [OF rs c]) (simp add: example_client_def)
  have idem: "\<forall>cl. apply_many example_client [example_web] (cluster ?h) = (None, cl)
                \<longrightarrow> apply_many example_client [example_web] cl = (None, cl)"
    by (auto simp: example_client_def create_or_update_def)
  from reconcile_resources_twice [OF first rs c idem] first
  show ?thesis by simp
qed

section \<open>The worst error and the aggregation of checks\<close>

text \<open>
  Claim C1. \<^verbatim>\<open>get_first_worst_error\<close> returns a Healthy verdict (\<^verbatim>\<open>ActiveStatus\<close>) exactly
  when its input is empty or every element is Healthy. On a non-empty input it returns
  an element of the input that is maximal in the order
  Healthy < Waiting < Maintenance < Blocked, and the first such: every element before it
  is strictly less severe, every element after it at most as severe. In
  \<^verbatim>\<open>resource_status\<close>, when \<^verbatim>\<open>check_resources\<close> reports a problem, the status returned is
  the status of that worst error among the errors that are not \<^verbatim>\<open>None\<close>, and every one of
  these errors, in order, has its line "Issue i/n: msg" in the log.
\<close>

theorem get_first_worst_error_first_maximum:
  "(status_class (status_of (get_first_worst_error es)) = ActiveStatus
      \<longleftrightarrow> (\<forall>e\<in>set es. status_type e = ActiveStatus))
   \<and> (es \<noteq> [] \<longrightarrow>
        (\<exists>pre post. es = pre @ get_first_worst_error es # post
           \<and> (\<forall>e\<in>set pre. severity (status_type e)
                               < severity (status_type (get_first_worst_error es)))
           \<and> (\<forall>e\<in>set post. severity (status_type e)
                               \<le> severity (status_type (get_first_worst_error es)))))
   \<and> severity ActiveStatus < severity WaitingStatus
   \<and> severity WaitingStatus < severity MaintenanceStatus
   \<and> severity MaintenanceStatus < severity BlockedStatus
   \<and> (unit_is_leader (handler_charm h)
        \<and> fst (resources_or_render ev h resources) = Inr rs
        \<and> fst (lightkube_client ev h) = Inr c
        \<and> check_resources_param c rs (cluster h) = Inr (False, errors)
      \<longrightarrow> fst (resource_status check_resources_param get_first_worst_error ev h resources)
             = Inr (status_of (get_first_worst_error (List.map_filter id errors)))
          \<and> log (snd (resource_status check_resources_param get_first_worst_error ev h resources))
             = log (snd (resources_or_render ev (log_at INFO ''Computing status'' h) resources))
               @ (INFO, ''Charm is not active due to one or more issues:'')
               # issue_lines (List.map_filter id errors))
   \<and> length (issue_lines es) = length es
   \<and> (\<forall>i<length es. issue_lines es ! i
         = (INFO, ''Issue '' @ str_nat (i + 1) @ ''/'' @ str_nat (length es) @ '': '' @ msg (es ! i)))"
proof -
  have report:
    "fst (resource_status check_resources_param get_first_worst_error ev h resources)
             = Inr (status_of (get_first_worst_error (List.map_filter id errors)))
     \<and> log (snd (resource_status check_resources_param get_first_worst_error ev h resources))
             = log (snd (resources_or_render ev (log_at INFO ''Computing status'' h) resources))
               @ (INFO, ''Charm is not active due to one or more issues:'')
               # issue_lines (List.map_filter id errors)"
    if leader: "unit_is_leader (handler_charm h)"
      and rs: "fst (resources_or_render ev h resources) = Inr rs"
      and c: "fst (lightkube_client ev h) = Inr c"
      and bad: "check_resources_param c rs (cluster h) = Inr (False, errors)"
    using bad
    by (simp add: resource_status_leader [OF leader rs c] Let_def lightkube_client_state)
  have order: "severity ActiveStatus < severity WaitingStatus
      \<and> severity WaitingStatus < severity MaintenanceStatus
      \<and> severity MaintenanceStatus < severity BlockedStatus"
    by simp
  from get_first_worst_error_healthy [of es] get_first_worst_error_split [of es]
       report order issue_lines_nth [of es]
  show ?thesis by blast
qed

theorem get_first_worst_error_first_maximum_witness:
  "get_first_worst_error
      [ErrorWithStatus_init (PyStr ''a'') WaitingStatus,
       ErrorWithStatus_init (PyStr ''b'') BlockedStatus,
       ErrorWithStatus_init (PyStr ''c'') BlockedStatus,
       ErrorWithStatus_init (PyStr ''d'') MaintenanceStatus]
     = ErrorWithStatus_init (PyStr ''b'') BlockedStatus
   \<and> (\<exists>pre post.
         [ErrorWithStatus_init (PyStr ''a'') WaitingStatus,
          ErrorWithStatus_init (PyStr ''b'') BlockedStatus,
          ErrorWithStatus_init (PyStr ''c'') BlockedStatus,
          ErrorWithStatus_init (PyStr ''d'') MaintenanceStatus]
           = pre @ ErrorWithStatus_init (PyStr ''b'') BlockedStatus # post
         \<and> (\<forall>e\<in>set pre. severity (status_type e) < severity BlockedStatus)
         \<and> (\<forall>e\<in>set post. severity (status_type e) \<le> severity BlockedStatus))
   \<and> unit_is_leader (handler_charm (example_handler True None Map.empty))
   \<and> check_resources example_ready example_client [example_web, example_db] Map.empty
       = Inr (False,
              [Some (ErrorWithStatus_init (PyStr ''web: not found'') WaitingStatus),
               Some (ErrorWithStatus_init (PyStr ''db: could not determine status'') BlockedStatus)])
   \<and> fst (resource_status (check_resources example_ready) get_first_worst_error example_env
          (example_handler True None Map.empty) (Some [example_web, example_db]))
       = Inr (new_status BlockedStatus ''db: could not determine status'')
   \<and> log (snd (resource_status (check_resources example_ready) get_first_worst_error example_env
          (example_handler True None Map.empty) (Some [example_web, example_db])))
       = [(INFO, ''Computing status''),
          (INFO, ''Charm is not active due to one or more issues:''),
          (INFO, ''Issue 1/2: web: not found''),
          (INFO, ''Issue 2/2: db: could not determine status'')]"
proof -
  let ?es = "[ErrorWithStatus_init (PyStr ''a'') WaitingStatus,
       ErrorWithStatus_init (PyStr ''b'') BlockedStatus,
       ErrorWithStatus_init (PyStr ''c'') BlockedStatus,
       ErrorWithStatus_init (PyStr ''d'') MaintenanceStatus]"
  let ?h = "example_handler True None Map.empty"
  let ?rs = "[example_web, example_db]"
  let ?errors = "[Some (ErrorWithStatus_init (PyStr ''web: not found'') WaitingStatus),
               Some (ErrorWithStatus_init (PyStr ''db: could not determine status'') BlockedStatus)]"
  have worst: "get_first_worst_error ?es = ErrorWithStatus_init (PyStr ''b'') BlockedStatus"
    by (simp add: get_first_worst_error_def ErrorWithStatus_init_def)
  have worst': "get_first_worst_error (List.map_filter id ?errors)
      = ErrorWithStatus_init (PyStr ''db: could not determine status'') BlockedStatus"
    by (simp add: get_first_worst_error_def ErrorWithStatus_init_def)
  have leader: "unit_is_leader (handler_charm ?h)"
    by (simp add: example_handler_def)
  have rs: "fst (resources_or_render example_env ?h (Some ?rs)) = Inr ?rs"
    by (simp add: resources_or_render_def)
  have c: "fst (lightkube_client example_env ?h) = Inr example_client"
    by (simp add: lightkube_client_def example_handler_def example_env_def)
  have found: "check_resources example_ready example_client ?rs (cluster ?h) = Inr (False, ?errors)"
    by (simp add: check_resources_def check_def example_client_def example_ready_def
          example_handler_def rid_def example_web_def example_db_def)
  have lines: "issue_lines (List.map_filter id ?errors)
     = [(INFO, ''Issue 1/2: web: not found''),
        (INFO, ''Issue 2/2: db: could not determine status'')]"
    by (simp add: issue_lines_def enumerate_eq_zip upt_rec str_nat.simps digit_char_def
          ErrorWithStatus_init_def)
  have start: "log (snd (resources_or_render example_env (log_at INFO ''Computing status'' ?h) (Some ?rs)))
     = [(INFO, ''Computing status'')]"
    by (simp add: resources_or_render_def example_handler_def)
  note run = get_first_worst_error_first_maximum
    [where es = ?es and h = ?h and ev = example_env and resources = "Some ?rs" and rs = ?rs
       and c = example_client and check_resources_param = "check_resources example_ready"
       and errors = ?errors]
  from run have "\<exists>pre post. ?es = pre @ get_first_worst_error ?es # post
           \<and> (\<forall>e\<in>set pre. severity (status_type e)
                               < severity (status_type (get_first_worst_error ?es)))
           \<and> (\<forall>e\<in>set post. severity (status_type e)
                               \<le> severity (status_type (get_first_worst_error ?es)))"
    by blast
  then have first: "\<exists>pre post. ?es = pre @ ErrorWithStatus_init (PyStr ''b'') BlockedStatus # post
         \<and> (\<forall>e\<in>set pre. severity (status_type e) < severity BlockedStatus)
         \<and> (\<forall>e\<in>set post. severity (status_type e) \<le> severity BlockedStatus)"
    unfolding worst by (simp add: ErrorWithStatus_init_def)
  from run leader rs c found have
    "fst (resource_status (check_resources example_ready) get_first_worst_error example_env ?h (Some ?rs))
       = Inr (status_of (get_first_worst_error (List.map_filter id ?errors)))"
    and "log (snd (resource_status (check_resources example_ready) get_first_worst_error example_env ?h (Some ?rs)))
       = log (snd (resources_or_render example_env (log_at INFO ''Computing status'' ?h) (Some ?rs)))
         @ (INFO, ''Charm is not active due to one or more issues:'')
         # issue_lines (List.map_filter id ?errors)"
    by blast+
  then have report:
    "fst (resource_status (check_resources example_ready) get_first_worst_error example_env ?h (Some ?rs))
       = Inr (new_status BlockedStatus ''db: could not determine status'')"
    "log (snd (resource_status (check_resources example_ready) get_first_worst_error example_env ?h (Some ?rs)))
       = [(INFO, ''Computing status''),
          (INFO, ''Charm is not active due to one or more issues:''),
          (INFO, ''Issue 1/2: web: not found''),
          (INFO, ''Issue 2/2: db: could not determine status'')]"
    unfolding worst' lines start
    by (simp_all add: status_of_def ErrorWithStatus_init_def)
  have found': "check_resources example_ready example_client ?rs Map.empty = Inr (False, ?errors)"
    using found by (simp add: example_handler_def)
  from worst first leader found' report show ?thesis
    by blast
qed

text \<open>
  Claim C4. For a leader whose client is available, when the lookup of some resource of
  the desired set fails with a transport error, \<^verbatim>\<open>check_resources\<close> still returns and
  \<^verbatim>\<open>resource_status\<close> returns a status instead of raising. The status is Blocked; the
  failed resource is among the reported errors as a Blocked error "could not determine
  status"; and every other resource whose own check found a problem has that error
  reported too, all of them logged in order.
\<close>

theorem resource_status_survives_failed_check:
  assumes leader: "unit_is_leader (handler_charm h)"
    and rs: "fst (resources_or_render ev h resources) = Inr rs"
    and c: "fst (lightkube_client ev h) = Inr c"
    and r: "r \<in> set rs"
    and failed: "get c r (cluster h) = Inl x"
  shows "(\<exists>st. fst (resource_status (check_resources ready) get_first_worst_error ev h resources)
                 = Inr st
              \<and> status_class st = BlockedStatus)
         \<and> log (snd (resource_status (check_resources ready) get_first_worst_error ev h resources))
             = log (snd (resources_or_render ev (log_at INFO ''Computing status'' h) resources))
               @ (INFO, ''Charm is not active due to one or more issues:'')
               # issue_lines (List.map_filter id (check_each ready c rs (cluster h)))
         \<and> ErrorWithStatus_init (PyStr (res_name r @ '': could not determine status'')) BlockedStatus
             \<in> set (List.map_filter id (check_each ready c rs (cluster h)))
         \<and> (\<forall>r'\<in>set rs. \<forall>e. check ready c r' (cluster h) = Inr (Some e)
               \<longrightarrow> e \<in> set (List.map_filter id (check_each ready c rs (cluster h))))"
proof -
  let ?errors = "check_each ready c rs (cluster h)"
  let ?blocked = "ErrorWithStatus_init (PyStr (res_name r @ '': could not determine status''))
                    BlockedStatus"
  from failed have "check ready c r (cluster h) = Inl x"
    by (rule check_lookup_failed)
  with r have recorded: "Some ?blocked \<in> set ?errors"
    by (force simp: check_each_map)
  then have listed: "?blocked \<in> set (List.map_filter id ?errors)"
    by (simp add: in_map_filter_id)
  have others: "\<forall>r'\<in>set rs. \<forall>e. check ready c r' (cluster h) = Inr (Some e)
               \<longrightarrow> e \<in> set (List.map_filter id ?errors)"
    by (force simp: in_map_filter_id check_each_map)
  from recorded have not_ok: "\<not> list_all (\<lambda>error. error = None) ?errors"
    by (auto simp: list_all_iff)
  have "status_type ?blocked = BlockedStatus"
    by (simp add: ErrorWithStatus_init_def)
  with listed have worst: "status_type (get_first_worst_error (List.map_filter id ?errors)) = BlockedStatus"
    by (rule get_first_worst_error_blocked)
  have run: "resource_status (check_resources ready) get_first_worst_error ev h resources =
      (Inr (status_of (get_first_worst_error (List.map_filter id ?errors))),
       (log_at INFO ''Charm is not active due to one or more issues:''
          (called (Check_resources rs)
             (snd (lightkube_client ev
                (snd (resources_or_render ev (log_at INFO ''Computing status'' h) resources))))))
         \<lparr>log := log (log_at INFO ''Charm is not active due to one or more issues:''
                   (called (Check_resources rs)
                      (snd (lightkube_client ev
                         (snd (resources_or_render ev (log_at INFO ''Computing status'' h) resources))))))
                 @ issue_lines (List.map_filter id ?errors)\<rparr>)"
    using not_ok
    by (simp add: resource_status_leader [OF leader rs c] check_resources_def Let_def)
  have "fst (resource_status (check_resources ready) get_first_worst_error ev h resources)
          = Inr (status_of (get_first_worst_error (List.map_filter id ?errors)))"
    by (simp add: run)
  moreover have "status_class (status_of (get_first_worst_error (List.map_filter id ?errors)))
          = BlockedStatus"
    using worst by (simp add: status_of_def new_status_def)
  moreover have "log (snd (resource_status (check_resources ready) get_first_worst_error ev h resources))
             = log (snd (resources_or_render ev (log_at INFO ''Computing status'' h) resources))
               @ (INFO, ''Charm is not active due to one or more issues:'')
               # issue_lines (List.map_filter id ?errors)"
    by (simp add: run lightkube_client_state)
  ultimately show ?thesis using listed others by blast
qed

theorem resource_status_survives_failed_check_witness:
  "get example_client example_db (create_or_update [example_web] Map.empty)
     = Inl (OtherException ''connection reset'')
   \<and> (\<exists>st. fst (resource_status (check_resources example_ready) get_first_worst_error example_env
                  (example_handler True None (create_or_update [example_web] Map.empty))
                  (Some [example_web, example_db, example_role])) = Inr st
          \<and> status_class st = BlockedStatus)
   \<and> log (snd (resource_status (check_resources example_ready) get_first_worst_error example_env
                  (example_handler True None (create_or_update [example_web] Map.empty))
                  (Some [example_web, example_db, example_role])))
       = [(INFO, ''Computing status''),
          (INFO, ''Charm is not active due to one or more issues:''),
          (INFO, ''Issue 1/2: db: could not determine status''),
          (INFO, ''Issue 2/2: admin: not found'')]"
proof -
  let ?h = "example_handler True None (create_or_update [example_web] Map.empty)"
  let ?rs = "[example_web, example_db, example_role]"
  have leader: "unit_is_leader (handler_charm ?h)"
    by (simp add: example_handler_def)
  have rs: "fst (resources_or_render example_env ?h (Some ?rs)) = Inr ?rs"
    by (simp add: resources_or_render_def)
  have c: "fst (lightkube_client example_env ?h) = Inr example_client"
    by (simp add: lightkube_client_def example_handler_def example_env_def)
  have r: "example_db \<in> set ?rs"
    by simp
  have failed: "get example_client example_db (cluster ?h) = Inl (OtherException ''connection reset'')"
    by (simp add: example_client_def example_db_def)
  have found: "List.map_filter id (check_each example_ready example_client ?rs (cluster ?h))
      = [ErrorWithStatus_init (PyStr ''db: could not determine status'') BlockedStatus,
         ErrorWithStatus_init (PyStr ''admin: not found'') WaitingStatus]"
    by (simp add: check_def example_client_def example_ready_def example_handler_def
          create_or_update_def rid_def example_web_def example_db_def example_role_def)
  have lines: "issue_lines
       [ErrorWithStatus_init (PyStr ''db: could not determine status'') BlockedStatus,
        ErrorWithStatus_init (PyStr ''admin: not found'') WaitingStatus]
     = [(INFO, ''Issue 1/2: db: could not determine status''),
        (INFO, ''Issue 2/2: admin: not found'')]"
    by (simp add: issue_lines_def enumerate_eq_zip upt_rec str_nat.simps digit_char_def
          ErrorWithStatus_init_def)
  have start: "log (snd (resources_or_render example_env (log_at INFO ''Computing status'' ?h) (Some ?rs)))
     = [(INFO, ''Computing status'')]"
    by (simp add: resources_or_render_def example_handler_def)
  from resource_status_survives_failed_check [OF leader rs c r failed, of example_ready]
  have "(\<exists>st. fst (resource_status (check_resources example_ready) get_first_worst_error
                    example_env ?h (Some ?rs)) = Inr st
              \<and> status_class st = BlockedStatus)"
    and "log (snd (resource_status (check_resources example_ready) get_first_worst_error
                    example_env ?h (Some ?rs)))
         = [(INFO, ''Computing status''),
            (INFO, ''Charm is not active due to one or more issues:''),
            (INFO, ''Issue 1/2: db: could not determine status''),
            (INFO, ''Issue 2/2: admin: not found'')]"
    unfolding found lines start by simp_all
  with failed show ?thesis
    by (simp add: example_handler_def)
qed
end
